theory Spec2Isabelle
  imports Main "HOL-Library.Sublist" "HOL-Library.AList"
begin

section \<open>Strings\<close>

text \<open>
  The middleware (\<^verbatim>\<open>functions/_middleware.js\<close>) works on JavaScript strings. A string is
  modelled as a \<^typ>\<open>string\<close>, one \<^typ>\<open>char\<close> for each code unit; every pattern the code
  looks for is ASCII, so the operations below only compare code units for equality.
\<close>

definition startsWith :: "string \<Rightarrow> string \<Rightarrow> bool" where
  "startsWith s p = (take (length p) s = p)"

definition endsWith :: "string \<Rightarrow> string \<Rightarrow> bool" where
  "endsWith s p = (length p \<le> length s \<and> drop (length s - length p) s = p)"

text \<open>\<^verbatim>\<open>s.includes(p)\<close>: \<open>p\<close> occurs at some position of \<open>s\<close>.\<close>

fun str_includes :: "string \<Rightarrow> string \<Rightarrow> bool" where
  "str_includes [] p = (p = [])"
| "str_includes (c # cs) p = (startsWith (c # cs) p \<or> str_includes cs p)"

text \<open>
  The regular expression \<^verbatim>\<open>/https?:\/\/github\.com\//\<close> at the start of a string: the
  length of its match there, if it matches. After \<^verbatim>\<open>http\<close> the next code unit is either
  \<^verbatim>\<open>s\<close> or \<^verbatim>\<open>:\<close>, so at most one of the two alternatives applies.
\<close>

definition matchHost :: "string \<Rightarrow> nat option" where
  "matchHost s =
     (if startsWith s ''https://github.com/'' then Some (length ''https://github.com/'')
      else if startsWith s ''http://github.com/'' then Some (length ''http://github.com/'')
      else None)"

text \<open>
  \<^verbatim>\<open>s.replace(/https?:\/\/github\.com\//, '')\<close>: the expression has no \<^verbatim>\<open>g\<close> flag and
  no anchor, so the leftmost match, wherever it starts, is removed, and nothing else is.
\<close>

fun replaceHost :: "string \<Rightarrow> string" where
  "replaceHost [] = []"
| "replaceHost (c # cs) =
     (case matchHost (c # cs) of
        Some n \<Rightarrow> drop n (c # cs)
      | None \<Rightarrow> c # replaceHost cs)"

text \<open>
  \<^verbatim>\<open>s.replace(/\.git$/, '')\<close> and \<^verbatim>\<open>s.replace(/\/$/, '')\<close>: without the \<^verbatim>\<open>m\<close> flag
  \<^verbatim>\<open>$\<close> is the end of the string, so one occurrence of the suffix is removed if the
  string ends with it.
\<close>

definition stripSuffix :: "string \<Rightarrow> string \<Rightarrow> string" where
  "stripSuffix p s = (if endsWith s p then take (length s - length p) s else s)"

text \<open>\<^verbatim>\<open>s.split(p)[0]\<close> for a non-empty \<open>p\<close>: the part of \<open>s\<close> before the first \<open>p\<close>.\<close>

fun beforeFirst :: "string \<Rightarrow> string \<Rightarrow> string" where
  "beforeFirst p [] = []"
| "beforeFirst p (c # cs) = (if startsWith (c # cs) p then [] else c # beforeFirst p cs)"

text \<open>Decimal digits of a natural number, as a template literal prints a number.\<close>

fun showNat :: "nat \<Rightarrow> string" where
  "showNat n =
     (if n < 10 then [''0123456789'' ! n]
      else showNat (n div 10) @ [''0123456789'' ! (n mod 10)])"

declare showNat.simps [simp del]

section \<open>The normaliser: the value of \<^verbatim>\<open>repoPath\<close> in \<^verbatim>\<open>getRepoInfo\<close>\<close>

text \<open>
  Lines 22 to 33 of the source, one definition for each statement:
  \<^verbatim>\<open>
    let repoPath = repoFullName;
    if (repoPath.includes('github.com/')) {
      repoPath = repoPath.replace(/https?:\/\/github\.com\//, '');
    }
    repoPath = repoPath.replace(/\.git$/, '').replace(/\/$/, '');
    if (repoPath.includes('/tree/')) {
      repoPath = repoPath.split('/tree/')[0];
    }
  \<close>
\<close>

definition stripHost :: "string \<Rightarrow> string" where
  "stripHost s = (if str_includes s ''github.com/'' then replaceHost s else s)"

definition stripTree :: "string \<Rightarrow> string" where
  "stripTree s = (if str_includes s ''/tree/'' then beforeFirst ''/tree/'' s else s)"

definition repoPath :: "string \<Rightarrow> string" where
  "repoPath repoFullName =
     stripTree (stripSuffix ''/'' (stripSuffix ''.git'' (stripHost repoFullName)))"

section \<open>JavaScript values\<close>

text \<open>
  The values that \<^verbatim>\<open>JSON.parse\<close> produces, and \<^verbatim>\<open>undefined\<close>. A number is kept
  as what the code can observe of it: whether it is truthy (it is not zero and not
  \<^verbatim>\<open>NaN\<close>), and the text of its string conversion, whatever its magnitude or
  fraction; apart from that the code only copies numbers. An object is the list of its own
  properties.
\<close>

datatype jsval =
    Undefined
  | Null
  | Bool bool
  | Num bool string
  | Str string
  | Arr "jsval list"
  | Obj "(string \<times> jsval) list"

text \<open>An exception: every value thrown here is an \<^verbatim>\<open>Error\<close> object with a message.\<close>

datatype thrown = Error (message: string)

definition nullish :: "jsval \<Rightarrow> bool" where
  "nullish v = (v = Undefined \<or> v = Null)"

fun truthy :: "jsval \<Rightarrow> bool" where
  "truthy Undefined = False"
| "truthy Null = False"
| "truthy (Bool b) = b"
| "truthy (Num nonzero shown) = nonzero"
| "truthy (Str s) = (s \<noteq> [])"
| "truthy (Arr xs) = True"
| "truthy (Obj kvs) = True"

text \<open>\<^verbatim>\<open>a || b\<close> on values.\<close>

definition js_or :: "jsval \<Rightarrow> jsval \<Rightarrow> jsval" where
  "js_or a b = (if truthy a then a else b)"

text \<open>
  \<^verbatim>\<open>v.k\<close> and \<^verbatim>\<open>v[0]\<close> for the property names the code reads (\<^verbatim>\<open>name\<close>,
  \<^verbatim>\<open>owner\<close>, \<^verbatim>\<open>commit\<close>, \<^verbatim>\<open>repos\<close>, \<^verbatim>\<open>0\<close>, ...): reading a property of
  \<^verbatim>\<open>undefined\<close> or \<^verbatim>\<open>null\<close> throws a TypeError; an object gives its own property
  or \<^verbatim>\<open>undefined\<close>; an array and a string have only the index \<^verbatim>\<open>0\<close> among them;
  a number and a boolean have none.
\<close>

fun getProp :: "jsval \<Rightarrow> string \<Rightarrow> thrown + jsval" where
  "getProp Undefined k =
     Inl (Error (''Cannot read properties of undefined (reading '' @ [CHR 0x27] @ k @ [CHR 0x27] @ '')''))"
| "getProp Null k =
     Inl (Error (''Cannot read properties of null (reading '' @ [CHR 0x27] @ k @ [CHR 0x27] @ '')''))"
| "getProp (Obj kvs) k = Inr (case map_of kvs k of None \<Rightarrow> Undefined | Some v \<Rightarrow> v)"
| "getProp (Arr xs) k = Inr (if k = ''0'' then (case xs of [] \<Rightarrow> Undefined | x # _ \<Rightarrow> x) else Undefined)"
| "getProp (Str s) k = Inr (if k = ''0'' then (case s of [] \<Rightarrow> Undefined | c # _ \<Rightarrow> Str [c]) else Undefined)"
| "getProp (Bool b) k = Inr Undefined"
| "getProp (Num nonzero shown) k = Inr Undefined"

text \<open>\<^verbatim>\<open>v?.k\<close>: \<^verbatim>\<open>undefined\<close> when \<open>v\<close> is \<^verbatim>\<open>undefined\<close> or \<^verbatim>\<open>null\<close>, never a throw.\<close>

definition optProp :: "jsval \<Rightarrow> string \<Rightarrow> jsval" where
  "optProp v k = (if nullish v then Undefined else (case getProp v k of Inl e \<Rightarrow> Undefined | Inr x \<Rightarrow> x))"

text \<open>
  The string conversion of a template literal \<^verbatim>\<open>`${v}`\<close>. An array joins the conversions
  of its elements with commas, \<^verbatim>\<open>null\<close> and \<^verbatim>\<open>undefined\<close> elements giving the empty
  string. An object prints as \<^verbatim>\<open>[object Object]\<close>, unless it has an own property
  \<^verbatim>\<open>toString\<close>: parsed from JSON that property is not a function, no primitive value is
  found, and the conversion throws a TypeError.
\<close>

fun toStr :: "jsval \<Rightarrow> thrown + string"
  and joinStr :: "jsval list \<Rightarrow> thrown + string" where
  "toStr Undefined = Inr ''undefined''"
| "toStr Null = Inr ''null''"
| "toStr (Bool b) = Inr (if b then ''true'' else ''false'')"
| "toStr (Num nonzero shown) = Inr shown"
| "toStr (Str s) = Inr s"
| "toStr (Arr xs) = joinStr xs"
| "toStr (Obj kvs) =
     (if map_of kvs ''toString'' = None then Inr ''[object Object]''
      else Inl (Error ''Cannot convert object to primitive value''))"
| "joinStr [] = Inr ''''"
| "joinStr (x # xs) =
     (case (if x = Undefined \<or> x = Null then Inr '''' else toStr x) of
        Inl e \<Rightarrow> Inl e
      | Inr s \<Rightarrow>
          (case joinStr xs of
             Inl e \<Rightarrow> Inl e
           | Inr r \<Rightarrow> Inr (if xs = [] then s else s @ '','' @ r)))"

text \<open>Sequencing of steps that may throw.\<close>

definition bindE :: "thrown + 'a \<Rightarrow> ('a \<Rightarrow> thrown + 'b) \<Rightarrow> thrown + 'b" where
  "bindE m f = (case m of Inl e \<Rightarrow> Inl e | Inr x \<Rightarrow> f x)"

section \<open>The upstream API\<close>

text \<open>
  \<^verbatim>\<open>fetch\<close> is the environment: a request (URL and headers) is answered by a rejection or
  by a response, of which the code reads \<^verbatim>\<open>ok\<close>, \<^verbatim>\<open>status\<close> and the outcome of
  \<^verbatim>\<open>json()\<close> (a parsed value, or a rejection). The upstream is a function of the request;
  an upstream that never answers is outside the model.
\<close>

record fetch_request =
  req_url :: string
  req_headers :: "(string \<times> string) list"

record fetch_response =
  ok :: bool
  status :: nat
  json :: "thrown + jsval"

type_synonym upstream = "fetch_request \<Rightarrow> thrown + fetch_response"

definition CACHE_TIME :: nat where
  "CACHE_TIME = 60 * 60"

definition CACHE_CONTROL :: string where
  "CACHE_CONTROL = ''public, max-age='' @ showNat CACHE_TIME"

definition GITHUB_API_BASE :: string where
  "GITHUB_API_BASE = ''https://api.github.com''"

definition USER_AGENT :: string where
  "USER_AGENT = ''YackSuite-Tool-Status-Checker''"

text \<open>
  The credential \<^verbatim>\<open>githubToken\<close> is a string, or \<^verbatim>\<open>undefined\<close> (\<open>None\<close>) when the
  variable is not configured or the argument is not passed. The header is the template
  literal \<^verbatim>\<open>`Bearer ${githubToken}`\<close> in both cases.
\<close>

definition apiHeaders :: "string option \<Rightarrow> (string \<times> string) list" where
  "apiHeaders githubToken =
     [(''User-Agent'', USER_AGENT),
      (''Accept'', ''application/vnd.github.v3+json''),
      (''Authorization'',
         ''Bearer '' @ (case githubToken of None \<Rightarrow> ''undefined'' | Some t \<Rightarrow> t))]"

definition repoRequest :: "string \<Rightarrow> string option \<Rightarrow> fetch_request" where
  "repoRequest path githubToken =
     \<lparr>req_url = GITHUB_API_BASE @ ''/repos/'' @ path, req_headers = apiHeaders githubToken\<rparr>"

definition commitsRequest :: "string \<Rightarrow> string \<Rightarrow> string option \<Rightarrow> fetch_request" where
  "commitsRequest path branch githubToken =
     \<lparr>req_url = GITHUB_API_BASE @ ''/repos/'' @ path @ ''/commits?per_page=1&sha='' @ branch,
      req_headers = apiHeaders githubToken\<rparr>"

section \<open>The fetcher: \<^verbatim>\<open>getRepoInfo\<close>\<close>

text \<open>
  The object literal of lines 65 to 80, its property values evaluated in the order of the
  source. \<^verbatim>\<open>commits[0]?.commit?.committer?.date\<close> is \<open>commitDate\<close> of the first element.
\<close>

definition commitDate :: "jsval \<Rightarrow> jsval" where
  "commitDate c = optProp (optProp (optProp c ''commit'') ''committer'') ''date''"

definition commitMessage :: "jsval \<Rightarrow> jsval" where
  "commitMessage c = optProp (optProp c ''commit'') ''message''"

definition assemble :: "jsval \<Rightarrow> jsval \<Rightarrow> thrown + jsval" where
  "assemble repoData commits =
     bindE (getProp repoData ''name'') (\<lambda>name.
     bindE (getProp repoData ''full_name'') (\<lambda>full_name.
     bindE (getProp repoData ''description'') (\<lambda>description.
     bindE (getProp repoData ''html_url'') (\<lambda>url.
     bindE (getProp repoData ''stargazers_count'') (\<lambda>stars.
     bindE (getProp repoData ''forks_count'') (\<lambda>forks.
     bindE (getProp commits ''0'') (\<lambda>c0.
     bindE (getProp repoData ''updated_at'') (\<lambda>updated_at.
     bindE (getProp repoData ''owner'') (\<lambda>owner.
     bindE (getProp owner ''login'') (\<lambda>login.
     bindE (getProp owner ''avatar_url'') (\<lambda>avatar_url.
     bindE (getProp owner ''html_url'') (\<lambda>owner_url.
     Inr (Obj
       [(''name'', name),
        (''full_name'', full_name),
        (''description'', description),
        (''url'', url),
        (''stars'', stars),
        (''forks'', forks),
        (''last_updated'', js_or (commitDate c0) updated_at),
        (''last_commit_message'', js_or (commitMessage c0) (Str '''')),
        (''last_commit_url'', js_or (optProp c0 ''html_url'') (Str '''')),
        (''owner'', Obj
           [(''login'', login),
            (''avatar_url'', avatar_url),
            (''url'', owner_url)])])))))))))))))"

text \<open>
  The \<^verbatim>\<open>try\<close> block of \<^verbatim>\<open>getRepoInfo\<close> for a string reference: the requests it issues,
  in order, and the value it returns or the exception it throws.
\<close>

definition tryBlock :: "upstream \<Rightarrow> string \<Rightarrow> string option \<Rightarrow> fetch_request list \<times> (thrown + jsval)" where
  "tryBlock fetch repoFullName githubToken =
     (let path = repoPath repoFullName;
          q1 = repoRequest path githubToken
      in case fetch q1 of
           Inl e \<Rightarrow> ([q1], Inl e)
         | Inr repoResponse \<Rightarrow>
             if \<not> ok repoResponse
             then ([q1], Inl (Error (''GitHub API error: '' @ showNat (status repoResponse))))
             else
               (case json repoResponse of
                  Inl e \<Rightarrow> ([q1], Inl e)
                | Inr repoData \<Rightarrow>
                    (case bindE (getProp repoData ''default_branch'') toStr of
                       Inl e \<Rightarrow> ([q1], Inl e)
                     | Inr branch \<Rightarrow>
                         (let q2 = commitsRequest path branch githubToken
                          in case fetch q2 of
                               Inl e \<Rightarrow> ([q1, q2], Inl e)
                             | Inr commitsResponse \<Rightarrow>
                                 if \<not> ok commitsResponse
                                 then ([q1, q2],
                                       Inl (Error (''GitHub API error fetching commits: ''
                                                   @ showNat (status commitsResponse))))
                                 else
                                   (case json commitsResponse of
                                      Inl e \<Rightarrow> ([q1, q2], Inl e)
                                    | Inr commits \<Rightarrow> ([q1, q2], assemble repoData commits))))))"

text \<open>
  A reference that is not a string (the bulk route passes the elements of \<^verbatim>\<open>repos\<close>
  unchecked) throws a TypeError at \<^verbatim>\<open>repoPath.includes\<close> or, for an array, at
  \<^verbatim>\<open>repoPath.replace\<close>, before any request.
\<close>

fun notAString :: "jsval \<Rightarrow> thrown" where
  "notAString Undefined = Error (''Cannot read properties of undefined (reading '' @ [CHR 0x27] @ ''includes'' @ [CHR 0x27] @ '')'')"
| "notAString Null = Error (''Cannot read properties of null (reading '' @ [CHR 0x27] @ ''includes'' @ [CHR 0x27] @ '')'')"
| "notAString (Arr xs) = Error ''repoPath.replace is not a function''"
| "notAString v = Error ''repoPath.includes is not a function''"

text \<open>
  The \<^verbatim>\<open>catch\<close> block: the log line converts \<^verbatim>\<open>repoFullName\<close> to a string, which can
  throw for a reference that is not a string; then the degraded record is returned.
\<close>

definition catchBlock :: "jsval \<Rightarrow> thrown \<Rightarrow> thrown + jsval" where
  "catchBlock repoFullName error =
     bindE (toStr repoFullName) (\<lambda>logged.
     Inr (Obj
       [(''name'', repoFullName),
        (''error'', Str (message error)),
        (''last_updated'', Null)]))"

text \<open>
  \<^verbatim>\<open>getRepoInfo\<close> with the requests it issued: \<open>Inr\<close> when the promise is fulfilled,
  \<open>Inl\<close> when it is rejected.
\<close>

fun getRepoInfo_run :: "upstream \<Rightarrow> jsval \<Rightarrow> string option \<Rightarrow> fetch_request list \<times> (thrown + jsval)" where
  "getRepoInfo_run fetch (Str s) githubToken =
     (case tryBlock fetch s githubToken of
        (issued, Inr info) \<Rightarrow> (issued, Inr info)
      | (issued, Inl error) \<Rightarrow> (issued, catchBlock (Str s) error))"
| "getRepoInfo_run fetch v githubToken = ([], catchBlock v (notAString v))"

definition getRepoInfo :: "upstream \<Rightarrow> jsval \<Rightarrow> string option \<Rightarrow> thrown + jsval" where
  "getRepoInfo fetch repoFullName githubToken = snd (getRepoInfo_run fetch repoFullName githubToken)"

definition issued :: "upstream \<Rightarrow> jsval \<Rightarrow> string option \<Rightarrow> fetch_request list" where
  "issued fetch repoFullName githubToken = fst (getRepoInfo_run fetch repoFullName githubToken)"

section \<open>The request handler: \<^verbatim>\<open>onRequest\<close>\<close>

text \<open>
  What the handler reads of its context: \<^verbatim>\<open>url.pathname\<close>, \<^verbatim>\<open>request.method\<close>,
  \<^verbatim>\<open>url.searchParams.get('repo')\<close> (\<open>None\<close> for \<^verbatim>\<open>null\<close>), the outcome of
  \<^verbatim>\<open>request.json()\<close>, and \<^verbatim>\<open>env.GITHUB_TOKEN\<close>.
\<close>

record http_request =
  pathname :: string
  http_method :: string
  repo_param :: "string option"
  body_json :: "thrown + jsval"

record env =
  GITHUB_TOKEN :: "string option"

record handler_context =
  request :: http_request
  env :: env

text \<open>
  A \<^verbatim>\<open>Response\<close>: its status, the headers it was built with, and the value whose
  \<^verbatim>\<open>JSON.stringify\<close> text is the body (the text itself, which orders the keys and
  leaves out the properties that are \<^verbatim>\<open>undefined\<close>, is not modelled). The handler
  answers, or passes the request on with \<^verbatim>\<open>next()\<close>.
\<close>

record http_response =
  r_status :: nat
  r_headers :: "(string \<times> string) list"
  r_body :: jsval

datatype outcome = Respond http_response | Next

definition errorResponse :: "nat \<Rightarrow> string \<Rightarrow> (string \<times> string) list \<Rightarrow> http_response" where
  "errorResponse st msg extra =
     \<lparr>r_status = st,
      r_headers = (''Content-Type'', ''application/json'') # extra,
      r_body = Obj [(''error'', Str msg)]\<rparr>"

text \<open>A response built without a status has status 200.\<close>

definition okResponse :: "jsval \<Rightarrow> http_response" where
  "okResponse v =
     \<lparr>r_status = 200,
      r_headers = [(''Content-Type'', ''application/json''), (''Cache-Control'', CACHE_CONTROL)],
      r_body = v\<rparr>"

text \<open>\<^verbatim>\<open>const { repos } = body\<close>: destructuring \<^verbatim>\<open>null\<close> or \<^verbatim>\<open>undefined\<close> throws.\<close>

definition destructureRepos :: "jsval \<Rightarrow> thrown + jsval" where
  "destructureRepos body =
     (if body = Undefined
      then Inl (Error (''Cannot destructure property '' @ [CHR 0x27] @ ''repos'' @ [CHR 0x27] @ '' of ''
                       @ [CHR 0x27] @ ''body'' @ [CHR 0x27] @ '' as it is undefined.''))
      else if body = Null
      then Inl (Error (''Cannot destructure property '' @ [CHR 0x27] @ ''repos'' @ [CHR 0x27] @ '' of ''
                       @ [CHR 0x27] @ ''body'' @ [CHR 0x27] @ '' as it is null.''))
      else getProp body ''repos'')"

fun isArray :: "jsval \<Rightarrow> bool" where
  "isArray (Arr xs) = True"
| "isArray v = False"

fun elements :: "jsval \<Rightarrow> jsval list" where
  "elements (Arr xs) = xs"
| "elements v = []"

text \<open>
  \<^verbatim>\<open>repoInfoMap\<close> is a plain object \<^verbatim>\<open>{}\<close>: its own properties, and its prototype
  (\<open>None\<close> for the initial \<^verbatim>\<open>Object.prototype\<close>). The assignment
  \<^verbatim>\<open>repoInfoMap[key] = v\<close> writes an own property, except for the key \<^verbatim>\<open>__proto__\<close>:
  as long as the object inherits the \<^verbatim>\<open>__proto__\<close> accessor of \<^verbatim>\<open>Object.prototype\<close>,
  the assignment calls that setter, which replaces the prototype when \<open>v\<close> is an object or
  \<^verbatim>\<open>null\<close>, does nothing otherwise, and in no case creates an own property.
\<close>

record js_object =
  own :: "(string \<times> jsval) list"
  proto :: "jsval option"

definition emptyObject :: js_object where
  "emptyObject = \<lparr>own = [], proto = None\<rparr>"

definition inheritsProtoSetter :: "js_object \<Rightarrow> bool" where
  "inheritsProtoSetter obj =
     (map_of (own obj) ''__proto__'' = None \<and>
      (case proto obj of
         None \<Rightarrow> True
       | Some (Obj kvs) \<Rightarrow> map_of kvs ''__proto__'' = None
       | Some (Arr xs) \<Rightarrow> True
       | Some v \<Rightarrow> False))"

definition assign :: "js_object \<Rightarrow> string \<Rightarrow> jsval \<Rightarrow> js_object" where
  "assign obj key v =
     (if key = ''__proto__'' \<and> inheritsProtoSetter obj
      then (case v of
              Obj kvs \<Rightarrow> obj\<lparr>proto := Some v\<rparr>
            | Arr xs \<Rightarrow> obj\<lparr>proto := Some v\<rparr>
            | Null \<Rightarrow> obj\<lparr>proto := Some v\<rparr>
            | _ \<Rightarrow> obj)
      else obj\<lparr>own := AList.update key v (own obj)\<rparr>)"

text \<open>
  \<^verbatim>\<open>Promise.all\<close> over the fetches: rejected as soon as one of them is, otherwise the
  list of their values.
\<close>

fun promiseAll :: "(thrown + 'a) list \<Rightarrow> thrown + 'a list" where
  "promiseAll [] = Inr []"
| "promiseAll (p # ps) =
     (case p of
        Inl e \<Rightarrow> Inl e
      | Inr x \<Rightarrow> (case promiseAll ps of Inl e \<Rightarrow> Inl e | Inr xs \<Rightarrow> Inr (x # xs)))"

text \<open>
  \<^verbatim>\<open>repos.forEach((repo, index) => { repoInfoMap[repo] = repoInfoResults[index]; })\<close>: the
  element is converted to a property key.
\<close>

fun forEachAssign :: "(jsval \<times> jsval) list \<Rightarrow> js_object \<Rightarrow> thrown + js_object" where
  "forEachAssign [] repoInfoMap = Inr repoInfoMap"
| "forEachAssign ((repo, info) # rest) repoInfoMap =
     (case toStr repo of
        Inl e \<Rightarrow> Inl e
      | Inr key \<Rightarrow> forEachAssign rest (assign repoInfoMap key info))"

text \<open>The \<^verbatim>\<open>try\<close> block of the bulk route, lines 102 to 140.\<close>

definition reposInfoTry :: "upstream \<Rightarrow> string option \<Rightarrow> http_request \<Rightarrow> thrown + http_response" where
  "reposInfoTry fetch githubToken req =
     (if http_method req \<noteq> ''POST''
      then Inr (errorResponse 405 ''Method not allowed. Use POST.'' [(''Allow'', ''POST'')])
      else
        bindE (body_json req) (\<lambda>body.
        bindE (destructureRepos body) (\<lambda>repos.
          if \<not> truthy repos \<or> \<not> isArray repos
          then Inr (errorResponse 400 ''Invalid request. Provide an array of repo URLs.'' [])
          else
            bindE (promiseAll (map (\<lambda>repo. getRepoInfo fetch repo githubToken) (elements repos)))
              (\<lambda>repoInfoResults.
            bindE (forEachAssign (zip (elements repos) repoInfoResults) emptyObject)
              (\<lambda>repoInfoMap.
            Inr (okResponse (Obj (own repoInfoMap))))))))"

text \<open>
  The \<^verbatim>\<open>try\<close> block of the single route, lines 154 to 172. \<^verbatim>\<open>getRepoInfo\<close> is
  called with one argument: its \<^verbatim>\<open>githubToken\<close> is \<^verbatim>\<open>undefined\<close>.
\<close>

definition repoInfoTry :: "upstream \<Rightarrow> http_request \<Rightarrow> thrown + http_response" where
  "repoInfoTry fetch req =
     (let repoUrl = (case repo_param req of None \<Rightarrow> Null | Some s \<Rightarrow> Str s)
      in if \<not> truthy repoUrl
         then Inr (errorResponse 400 ''Missing repo parameter'' [])
         else bindE (getRepoInfo fetch repoUrl None) (\<lambda>repoInfo. Inr (okResponse repoInfo)))"

definition onRequest :: "upstream \<Rightarrow> handler_context \<Rightarrow> outcome" where
  "onRequest fetch ctx =
     (let githubToken = GITHUB_TOKEN (env ctx) in
      if pathname (request ctx) = ''/api/repos-info''
      then Respond
        (case reposInfoTry fetch githubToken (request ctx) of
           Inr r \<Rightarrow> r
         | Inl error \<Rightarrow> errorResponse 500 (message error) [])
      else if pathname (request ctx) = ''/api/repo-info''
      then Respond
        (case repoInfoTry fetch (request ctx) of
           Inr r \<Rightarrow> r
         | Inl error \<Rightarrow> errorResponse 500 (message error) [])
      else Next)"

section \<open>Shapes and test upstreams\<close>

text \<open>The property names of a full \<^verbatim>\<open>RepositoryInfo\<close> object, in the order of the literal.\<close>

definition infoKeys :: "string list" where
  "infoKeys = [''name'', ''full_name'', ''description'', ''url'', ''stars'', ''forks'',
     ''last_updated'', ''last_commit_message'', ''last_commit_url'', ''owner'']"

text \<open>
  Upstreams for the concrete instances below: one that answers every request with a
  failure status, and one that answers the request for \<open>metaUrl\<close> with the metadata
  \<open>repoData\<close> and every other request with \<open>commits\<close>.
\<close>

definition upstreamStatus :: "nat \<Rightarrow> upstream" where
  "upstreamStatus s q = Inr \<lparr>ok = False, status = s, json = Inr (Obj [(''message'', Str ''Not Found'')])\<rparr>"

definition upstreamOf :: "string \<Rightarrow> jsval \<Rightarrow> jsval \<Rightarrow> upstream" where
  "upstreamOf metaUrl repoData commits q =
     (if req_url q = metaUrl
      then Inr \<lparr>ok = True, status = 200, json = Inr repoData\<rparr>
      else Inr \<lparr>ok = True, status = 200, json = Inr commits\<rparr>)"

text \<open>
  The status of the handler's answer, if it answers.
\<close>

definition statusOf :: "outcome \<Rightarrow> nat option" where
  "statusOf out = (case out of Respond r \<Rightarrow> Some (r_status r) | Next \<Rightarrow> None)"

text \<open>
  The value of a fulfilled \<^verbatim>\<open>getRepoInfo\<close> promise.
\<close>

definition fulfilled :: "upstream \<Rightarrow> string option \<Rightarrow> string \<Rightarrow> jsval" where
  "fulfilled fetch githubToken s = projr (getRepoInfo fetch (Str s) githubToken)"

section \<open>Facts about the string operations\<close>

text \<open>The equations that evaluate the normaliser and the requests on concrete strings.\<close>

lemmas eval_path = repoPath_def stripHost_def stripTree_def stripSuffix_def matchHost_def
  startsWith_def endsWith_def

lemmas eval_request = repoRequest_def commitsRequest_def apiHeaders_def GITHUB_API_BASE_def
  USER_AGENT_def

lemma startsWith_prefix: "startsWith s p \<longleftrightarrow> prefix p s"
  unfolding startsWith_def prefix_def
  by (metis append_eq_conv_conj append_take_drop_id)

lemma endsWith_suffix: "endsWith s p \<longleftrightarrow> suffix p s"
proof
  assume "endsWith s p"
  then have "drop (length s - length p) s = p" by (simp add: endsWith_def)
  then show "suffix p s" by (metis suffix_drop)
next
  assume "suffix p s"
  then obtain zs where "s = zs @ p" by (auto simp: suffix_def)
  then show "endsWith s p" by (simp add: endsWith_def)
qed

lemma includes_sublist: "str_includes s p \<longleftrightarrow> sublist p s"
  by (induction s) (auto simp: startsWith_prefix sublist_Cons_right)

lemma stripSuffix_append: "stripSuffix p (y @ p) = y"
  by (simp add: stripSuffix_def endsWith_def)

lemma stripSuffix_id: "\<not> suffix p s \<Longrightarrow> stripSuffix p s = s"
  by (simp add: stripSuffix_def endsWith_suffix)

lemma sublist_count_le:
  assumes "sublist p s" shows "count_list p c \<le> count_list s c"
proof -
  from assms obtain a b where "s = a @ p @ b" by (auto simp: sublist_def)
  then show ?thesis by simp
qed

lemma replaceHost_id:
  "\<not> str_includes s ''http://github.com/'' \<Longrightarrow> \<not> str_includes s ''https://github.com/''
     \<Longrightarrow> replaceHost s = s"
  by (induction s) (auto simp: matchHost_def)

lemma stripHost_prefix_https: "stripHost (''https://github.com/'' @ r) = r"
  by (simp add: stripHost_def matchHost_def startsWith_def)

lemma stripHost_prefix_http: "stripHost (''http://github.com/'' @ r) = r"
  by (simp add: stripHost_def matchHost_def startsWith_def)

lemma one_slash:
  "CHR ''/'' \<notin> set a \<Longrightarrow> CHR ''/'' \<notin> set b \<Longrightarrow> count_list (a @ ''/'' @ b) CHR ''/'' = 1"
  by simp

lemma no_git_suffix:
  assumes "\<not> suffix ''.git'' b"
  shows "\<not> suffix ''.git'' (x @ ''/'' @ b)"
proof
  assume "suffix ''.git'' (x @ ''/'' @ b)"
  then have "suffix ''.git'' ((x @ ''/'') @ b)" by simp
  then consider "suffix ''.git'' b"
    | xs' where "''.git'' = xs' @ b" "suffix xs' (x @ ''/'')"
    unfolding suffix_append by blast
  then show False
  proof cases
    case 1 with assms show False by simp
  next
    case 2
    show False
    proof (cases "xs' = []")
      case True with 2 assms show False by simp
    next
      case False
      with 2(2) have "last xs' = CHR ''/''"
        by (auto simp: suffix_def) (metis last_appendR last_snoc)
      with False have "CHR ''/'' \<in> set xs'" using last_in_set by metis
      moreover have "set xs' \<subseteq> set ''.git''" using 2(1) by (metis set_append Un_upper1)
      ultimately show False by auto
    qed
  qed
qed

lemma no_slash_suffix:
  assumes "b \<noteq> []" "CHR ''/'' \<notin> set b"
  shows "\<not> suffix ''/'' (x @ b)"
proof
  assume "suffix ''/'' (x @ b)"
  then obtain zs where "x @ b = zs @ ''/''" by (auto simp: suffix_def)
  then have "last (x @ b) = CHR ''/''" by simp
  with assms(1) have "last b = CHR ''/''" by simp
  with assms show False using last_in_set by metis
qed

lemma stripTree_one_slash:
  assumes "CHR ''/'' \<notin> set a" "CHR ''/'' \<notin> set b"
  shows "stripTree (a @ ''/'' @ b) = a @ ''/'' @ b"
proof -
  have "\<not> sublist ''/tree/'' (a @ ''/'' @ b)"
  proof
    assume "sublist ''/tree/'' (a @ ''/'' @ b)"
    then have "count_list ''/tree/'' CHR ''/'' \<le> count_list (a @ ''/'' @ b) CHR ''/''"
      by (rule sublist_count_le)
    with assms show False by simp
  qed
  then show ?thesis by (simp add: stripTree_def includes_sublist)
qed

lemma replaceHost_one_slash:
  assumes "CHR ''/'' \<notin> set a" "CHR ''/'' \<notin> set b"
  shows "stripHost (a @ ''/'' @ b) = a @ ''/'' @ b"
proof -
  have "\<not> sublist p (a @ ''/'' @ b)" if "count_list p CHR ''/'' = 3" for p
  proof
    assume "sublist p (a @ ''/'' @ b)"
    then have "count_list p CHR ''/'' \<le> count_list (a @ ''/'' @ b) CHR ''/''"
      by (rule sublist_count_le)
    with assms that show False by simp
  qed
  then have "\<not> str_includes (a @ ''/'' @ b) ''http://github.com/''"
    and "\<not> str_includes (a @ ''/'' @ b) ''https://github.com/''"
    by (simp_all add: includes_sublist)
  then show ?thesis by (simp add: stripHost_def replaceHost_id)
qed

lemma beforeFirst_skip:
  assumes "CHR ''/'' \<notin> set xs"
  shows "beforeFirst ''/tree/'' (xs @ r) = xs @ beforeFirst ''/tree/'' r"
  using assms by (induction xs) (auto simp: startsWith_def)

lemma beforeFirst_hit: "beforeFirst ''/tree/'' (''/tree/'' @ r) = []"
  by (simp add: startsWith_def)

lemma first_slash_unique:
  assumes "CHR ''/'' \<notin> set a" "CHR ''/'' \<notin> set b" "a @ CHR ''/'' # r = b @ CHR ''/'' # r'"
  shows "a = b"
  using assms
proof (induction a arbitrary: b)
  case Nil
  then show ?case by (cases b) auto
next
  case (Cons x a)
  then show ?case by (cases b) auto
qed

lemma not_startsWith_tree:
  assumes "CHR ''/'' \<notin> set n" "n \<noteq> ''tree''"
  shows "\<not> startsWith (''/'' @ n @ ''/tree/'' @ r) ''/tree/''"
proof
  assume "startsWith (''/'' @ n @ ''/tree/'' @ r) ''/tree/''"
  then have "prefix (CHR ''/'' # ''tree/'') (CHR ''/'' # n @ ''/tree/'' @ r)"
    by (simp only: startsWith_prefix append_Cons append_Nil)
  then have "prefix ''tree/'' (n @ ''/tree/'' @ r)"
    by (simp only: Cons_prefix_Cons)
  then obtain z where "n @ ''/tree/'' @ r = ''tree/'' @ z"
    unfolding prefix_def by blast
  then have eq: "n @ CHR ''/'' # (''tree/'' @ r) = ''tree'' @ CHR ''/'' # z"
    by (simp only: append_Cons append_Nil)
  have "CHR ''/'' \<notin> set ''tree''" by simp
  with assms(1) have "n = ''tree''" using eq by (rule first_slash_unique)
  with assms(2) show False by simp
qed

lemma stripTree_tree:
  assumes "CHR ''/'' \<notin> set a" "CHR ''/'' \<notin> set n" "n \<noteq> ''tree''"
  shows "stripTree (a @ ''/'' @ n @ ''/tree/'' @ r) = a @ ''/'' @ n"
proof -
  have inc: "str_includes (a @ ''/'' @ n @ ''/tree/'' @ r) ''/tree/''"
    unfolding includes_sublist sublist_def by (rule exI [of _ "a @ ''/'' @ n"], rule exI [of _ r]) simp
  have "beforeFirst ''/tree/'' (a @ ''/'' @ n @ ''/tree/'' @ r)
        = a @ beforeFirst ''/tree/'' (''/'' @ n @ ''/tree/'' @ r)"
    using assms(1) by (rule beforeFirst_skip)
  also have "beforeFirst ''/tree/'' (''/'' @ n @ ''/tree/'' @ r)
        = CHR ''/'' # beforeFirst ''/tree/'' (n @ ''/tree/'' @ r)"
    using not_startsWith_tree [OF assms(2,3), of r] by simp
  also have "beforeFirst ''/tree/'' (n @ ''/tree/'' @ r) = n @ beforeFirst ''/tree/'' (''/tree/'' @ r)"
    using assms(2) by (rule beforeFirst_skip)
  also have "beforeFirst ''/tree/'' (''/tree/'' @ r) = []" by (rule beforeFirst_hit)
  finally have "beforeFirst ''/tree/'' (a @ ''/'' @ n @ ''/tree/'' @ r) = a @ ''/'' @ n" by simp
  with inc show ?thesis by (simp add: stripTree_def)
qed

lemma stripSlash_keeps:
  assumes "z \<noteq> []"
  shows "\<exists>z'. stripSuffix ''/'' (q @ z) = q @ z'"
proof (cases "endsWith (q @ z) ''/''")
  case True
  then have "stripSuffix ''/'' (q @ z) = butlast (q @ z)"
    by (simp add: stripSuffix_def butlast_conv_take)
  with assms show ?thesis by (simp add: butlast_append)
next
  case False
  then show ?thesis by (simp add: stripSuffix_def)
qed

lemma strip_branch:
  assumes "b \<noteq> []" "b \<noteq> ''.git''"
  shows "\<exists>b'. stripSuffix ''/'' (stripSuffix ''.git'' (p @ ''/'' @ b)) = p @ ''/'' @ b'"
proof (cases "suffix ''.git'' b")
  case True
  then obtain b0 where b: "b = b0 @ ''.git''" by (auto simp: suffix_def)
  with assms(2) have "b0 \<noteq> []" by auto
  have "stripSuffix ''.git'' (p @ ''/'' @ b) = (p @ ''/'') @ b0"
    using stripSuffix_append [of "''.git''" "p @ ''/'' @ b0"] by (simp add: b)
  moreover obtain z' where "stripSuffix ''/'' ((p @ ''/'') @ b0) = (p @ ''/'') @ z'"
    using stripSlash_keeps [OF \<open>b0 \<noteq> []\<close>] by blast
  ultimately show ?thesis by auto
next
  case False
  then have "stripSuffix ''.git'' (p @ ''/'' @ b) = (p @ ''/'') @ b"
    using no_git_suffix [of b p] by (simp add: stripSuffix_id)
  moreover obtain z' where "stripSuffix ''/'' ((p @ ''/'') @ b) = (p @ ''/'') @ z'"
    using stripSlash_keeps [OF assms(1)] by blast
  ultimately show ?thesis by auto
qed

lemma no_git_suffix_slash: "\<not> suffix ''.git'' (y @ ''/'')"
proof
  assume "suffix ''.git'' (y @ ''/'')"
  then obtain zs where "y @ ''/'' = zs @ ''.git''" by (auto simp: suffix_def)
  then have "last (y @ ''/'') = last (zs @ ''.git'')" by (rule arg_cong)
  then show False by simp
qed

section \<open>The normaliser\<close>

text \<open>
Claim C3, as amended. For an owner and a repository name without \<^verbatim>\<open>/\<close>, the name
  not empty: the normaliser maps \<^verbatim>\<open>https://github.com/OWNER/NAME.git\<close> and
  \<^verbatim>\<open>https://github.com/OWNER/NAME/\<close> to \<^verbatim>\<open>OWNER/NAME\<close>; it maps
  \<^verbatim>\<open>https://github.com/OWNER/NAME\<close> to \<^verbatim>\<open>OWNER/NAME\<close> when the name does not end in
  \<^verbatim>\<open>.git\<close>; and it maps \<^verbatim>\<open>https://github.com/OWNER/NAME/tree/BRANCH\<close> to
  \<^verbatim>\<open>OWNER/NAME\<close> when the name is not \<^verbatim>\<open>tree\<close> and the branch is neither empty nor
  \<^verbatim>\<open>.git\<close>.
\<close>

theorem repoPath_github_urls:
  assumes "CHR ''/'' \<notin> set owner" and "CHR ''/'' \<notin> set name" and "name \<noteq> []"
  shows "(\<not> endsWith name ''.git'' \<longrightarrow>
            repoPath (''https://github.com/'' @ owner @ ''/'' @ name) = owner @ ''/'' @ name)
       \<and> repoPath (''https://github.com/'' @ owner @ ''/'' @ name @ ''.git'') = owner @ ''/'' @ name
       \<and> repoPath (''https://github.com/'' @ owner @ ''/'' @ name @ ''/'') = owner @ ''/'' @ name
       \<and> (name \<noteq> ''tree'' \<and> branch \<noteq> [] \<and> branch \<noteq> ''.git'' \<longrightarrow>
            repoPath (''https://github.com/'' @ owner @ ''/'' @ name @ ''/tree/'' @ branch)
              = owner @ ''/'' @ name)"
proof -
  let ?on = "owner @ ''/'' @ name"
  have slash: "stripSuffix ''/'' ?on = ?on"
    using no_slash_suffix [OF assms(3,2), of "owner @ ''/''"] by (simp add: stripSuffix_id)
  have tree: "stripTree ?on = ?on"
    using assms(1,2) by (rule stripTree_one_slash)
  have plain: "repoPath (''https://github.com/'' @ ?on) = ?on" if "\<not> endsWith name ''.git''"
  proof -
    from that have "stripSuffix ''.git'' ?on = ?on"
      using no_git_suffix [of name owner] by (simp add: stripSuffix_id endsWith_suffix)
    then show ?thesis
      by (simp only: repoPath_def stripHost_prefix_https slash tree)
  qed
  have git: "repoPath (''https://github.com/'' @ ?on @ ''.git'') = ?on"
    by (simp only: repoPath_def stripHost_prefix_https stripSuffix_append slash tree)
  have "stripSuffix ''.git'' (?on @ ''/'') = ?on @ ''/''"
    by (rule stripSuffix_id) (rule no_git_suffix_slash)
  then have trailing: "repoPath (''https://github.com/'' @ ?on @ ''/'') = ?on"
    by (simp only: repoPath_def stripHost_prefix_https stripSuffix_append tree)
  have branch: "repoPath (''https://github.com/'' @ ?on @ ''/tree/'' @ branch) = ?on"
    if nt: "name \<noteq> ''tree''" and bn: "branch \<noteq> []" and bg: "branch \<noteq> ''.git''"
  proof -
    obtain b' where
      "stripSuffix ''/'' (stripSuffix ''.git'' ((?on @ ''/tree'') @ ''/'' @ branch))
         = (?on @ ''/tree'') @ ''/'' @ b'"
      using strip_branch [OF bn bg] by blast
    then have "stripSuffix ''/'' (stripSuffix ''.git'' (?on @ ''/tree/'' @ branch))
         = owner @ ''/'' @ name @ ''/tree/'' @ b'"
      by simp
    moreover have "stripTree (owner @ ''/'' @ name @ ''/tree/'' @ b') = ?on"
      using assms(1,2) nt by (rule stripTree_tree)
    ultimately show ?thesis
      by (simp only: repoPath_def stripHost_prefix_https)
  qed
  from plain git trailing branch show ?thesis by (simp only: append_assoc) blast
qed

text \<open>
The four forms of claim C3 at the owner \<^verbatim>\<open>o\<close>, the name \<^verbatim>\<open>n\<close> and the branch \<^verbatim>\<open>main\<close>.
\<close>

theorem repoPath_github_urls_witness:
  "repoPath ''https://github.com/o/n'' = ''o/n''
   \<and> repoPath ''https://github.com/o/n.git'' = ''o/n''
   \<and> repoPath ''https://github.com/o/n/'' = ''o/n''
   \<and> repoPath ''https://github.com/o/n/tree/main'' = ''o/n''"
  using repoPath_github_urls [of "''o''" "''n''" "''main''"]
  by (simp add: endsWith_def)

text \<open>
Claim C3 as stated fails for a repository named \<^verbatim>\<open>tree\<close>: the first \<^verbatim>\<open>/tree/\<close> of
  \<^verbatim>\<open>o/tree/tree/main\<close> is the name itself, and the path is cut down to the owner.
\<close>

theorem repoPath_tree_counterexample:
  "repoPath ''https://github.com/o/tree/tree/main'' = ''o''
   \<and> repoPath ''https://github.com/o/tree/tree/main'' \<noteq> ''o/tree''"
  by (simp add: repoPath_def stripHost_def stripTree_def stripSuffix_def matchHost_def
      startsWith_def endsWith_def)

text \<open>
Claim C8, as amended. An input \<^verbatim>\<open>OWNER/NAME\<close>, owner and name without \<^verbatim>\<open>/\<close>, the
  name not empty and not ending in \<^verbatim>\<open>.git\<close>, is returned unchanged; and every string in
  which none of the patterns is present (no \<^verbatim>\<open>http://github.com/\<close> or
  \<^verbatim>\<open>https://github.com/\<close>, no trailing \<^verbatim>\<open>.git\<close>, no trailing \<^verbatim>\<open>/\<close>, no
  \<^verbatim>\<open>/tree/\<close>) is returned unchanged: each step is a no-op when its pattern is absent.
\<close>

theorem repoPath_fixed_points:
  "(CHR ''/'' \<notin> set owner \<and> CHR ''/'' \<notin> set name \<and> name \<noteq> [] \<and> \<not> endsWith name ''.git''
      \<longrightarrow> repoPath (owner @ ''/'' @ name) = owner @ ''/'' @ name)
   \<and> (\<not> str_includes s ''http://github.com/'' \<and> \<not> str_includes s ''https://github.com/''
        \<and> \<not> endsWith s ''.git'' \<and> \<not> endsWith s ''/'' \<and> \<not> str_includes s ''/tree/''
      \<longrightarrow> repoPath s = s)"
proof (intro conjI impI)
  assume a: "CHR ''/'' \<notin> set owner \<and> CHR ''/'' \<notin> set name \<and> name \<noteq> [] \<and> \<not> endsWith name ''.git''"
  let ?on = "owner @ ''/'' @ name"
  from a have "stripHost ?on = ?on" using replaceHost_one_slash [of owner name] by simp
  moreover from a have "stripSuffix ''.git'' ?on = ?on"
    using no_git_suffix [of name owner] by (simp add: stripSuffix_id endsWith_suffix)
  moreover from a have "stripSuffix ''/'' ?on = ?on"
    using no_slash_suffix [of name "owner @ ''/''"] by (simp add: stripSuffix_id)
  moreover from a have "stripTree ?on = ?on" using stripTree_one_slash [of owner name] by simp
  ultimately show "repoPath ?on = ?on" by (simp only: repoPath_def)
next
  assume "\<not> str_includes s ''http://github.com/'' \<and> \<not> str_includes s ''https://github.com/''
        \<and> \<not> endsWith s ''.git'' \<and> \<not> endsWith s ''/'' \<and> \<not> str_includes s ''/tree/''"
  then show "repoPath s = s"
    by (simp add: repoPath_def stripHost_def stripTree_def stripSuffix_def replaceHost_id)
qed

text \<open>
Claim C8 at \<^verbatim>\<open>yack-security/yack-suite\<close> and at \<^verbatim>\<open>o/n\<close>.
\<close>

theorem repoPath_fixed_points_witness:
  "repoPath ''yack-security/yack-suite'' = ''yack-security/yack-suite''
   \<and> repoPath ''o/n'' = ''o/n''"
  using repoPath_fixed_points [of "''yack-security''" "''yack-suite''" "''o/n''"]
  by (simp add: endsWith_def startsWith_def)

text \<open>
The normaliser is not idempotent, as claim C8 states it: each suffix is removed once, so
  the output for \<^verbatim>\<open>https://github.com/o/n.git/\<close> is \<^verbatim>\<open>o/n.git\<close>, which a second
  application changes to \<^verbatim>\<open>o/n\<close>.
\<close>

theorem repoPath_not_idempotent_counterexample:
  "repoPath ''https://github.com/o/n.git/'' = ''o/n.git''
   \<and> repoPath (repoPath ''https://github.com/o/n.git/'') = ''o/n''"
  by (simp add: repoPath_def stripHost_def stripTree_def stripSuffix_def matchHost_def
      startsWith_def endsWith_def)

text \<open>
Claim C9, as amended. The first step removes a leading \<^verbatim>\<open>https://github.com/\<close> or
  \<^verbatim>\<open>http://github.com/\<close>; an input in which \<^verbatim>\<open>github.com/\<close> never follows
  \<^verbatim>\<open>http://\<close> or \<^verbatim>\<open>https://\<close> passes the first step unchanged.
\<close>

theorem stripHost_scheme_prefix:
  "stripHost (''https://github.com/'' @ r) = r
   \<and> stripHost (''http://github.com/'' @ r) = r
   \<and> (\<not> str_includes s ''http://github.com/'' \<and> \<not> str_includes s ''https://github.com/''
        \<longrightarrow> stripHost s = s)"
proof (intro conjI impI)
  show "stripHost (''https://github.com/'' @ r) = r" by (rule stripHost_prefix_https)
  show "stripHost (''http://github.com/'' @ r) = r" by (rule stripHost_prefix_http)
  assume "\<not> str_includes s ''http://github.com/'' \<and> \<not> str_includes s ''https://github.com/''"
  then show "stripHost s = s" by (simp add: stripHost_def replaceHost_id)
qed

text \<open>
Claim C9 at \<^verbatim>\<open>o/n\<close> behind both schemes, and at the scheme-less \<^verbatim>\<open>github.com/o/n\<close>.
\<close>

theorem stripHost_scheme_prefix_witness:
  "stripHost ''https://github.com/o/n'' = ''o/n''
   \<and> stripHost ''http://github.com/o/n'' = ''o/n''
   \<and> stripHost ''github.com/o/n'' = ''github.com/o/n''"
  using stripHost_scheme_prefix [of "''o/n''" "''github.com/o/n''"]
  by (simp add: startsWith_def)

text \<open>
Claim C9 as stated fails for the scheme-less \<^verbatim>\<open>github.com/o/n\<close>: it contains
  \<^verbatim>\<open>github.com/\<close>, the expression requires a scheme and does not match, and the host stays
  in the path.
\<close>

theorem stripHost_schemeless_counterexample:
  "str_includes ''github.com/o/n'' ''github.com/''
   \<and> stripHost ''github.com/o/n'' = ''github.com/o/n''
   \<and> repoPath ''github.com/o/n'' = ''github.com/o/n''"
  by (simp add: repoPath_def stripHost_def stripTree_def stripSuffix_def matchHost_def
      startsWith_def endsWith_def)

section \<open>The fetcher\<close>

lemma assemble_shape:
  assumes "assemble repoData commits = Inr v"
  shows "\<exists>fields. v = Obj fields \<and> map fst fields = infoKeys"
  using assms
  by (auto simp: assemble_def bindE_def infoKeys_def split: sum.splits)

lemma tryBlock_shape:
  assumes "snd (tryBlock fetch s tok) = Inr v"
  shows "\<exists>fields. v = Obj fields \<and> map fst fields = infoKeys"
  using assms
  by (auto simp: tryBlock_def Let_def split: sum.splits if_splits dest: assemble_shape)

lemma catchBlock_string:
  "catchBlock (Str s) e = Inr (Obj [(''name'', Str s), (''error'', Str (message e)), (''last_updated'', Null)])"
  by (simp add: catchBlock_def bindE_def)

lemma getRepoInfo_string:
  "getRepoInfo fetch (Str s) tok =
     (case snd (tryBlock fetch s tok) of
        Inr info \<Rightarrow> Inr info
      | Inl e \<Rightarrow> Inr (Obj [(''name'', Str s), (''error'', Str (message e)), (''last_updated'', Null)]))"
  by (simp add: getRepoInfo_def catchBlock_string split: prod.splits sum.splits)


text \<open>
Claim C4. When the metadata response is not \<^verbatim>\<open>ok\<close>, the metadata request is the only
  request issued, and the result is the degraded object with the original reference as
  \<^verbatim>\<open>name\<close>, the message \<^verbatim>\<open>GitHub API error: \<close> followed by the status, and
  \<^verbatim>\<open>last_updated: null\<close>.
\<close>

theorem metadata_error_result:
  assumes "fetch (repoRequest (repoPath ref) githubToken) = Inr repoResponse"
    and "\<not> ok repoResponse"
  shows "getRepoInfo_run fetch (Str ref) githubToken =
     ([repoRequest (repoPath ref) githubToken],
      Inr (Obj [(''name'', Str ref),
                (''error'', Str (''GitHub API error: '' @ showNat (status repoResponse))),
                (''last_updated'', Null)]))"
  using assms by (simp add: tryBlock_def catchBlock_string)

text \<open>
  Claim C4 at an upstream that answers 404, for the reference \<^verbatim>\<open>https://github.com/o/n\<close>
  without a credential: one request, and the degraded object with the message
  \<^verbatim>\<open>GitHub API error: 404\<close>.
\<close>

theorem metadata_error_result_witness:
  "getRepoInfo_run (upstreamStatus 404) (Str ''https://github.com/o/n'') None =
     ([repoRequest ''o/n'' None],
      Inr (Obj [(''name'', Str ''https://github.com/o/n''),
                (''error'', Str ''GitHub API error: 404''),
                (''last_updated'', Null)]))"
proof -
  have path: "repoPath ''https://github.com/o/n'' = ''o/n''"
    by (simp add: repoPath_def stripHost_def stripTree_def stripSuffix_def matchHost_def
        startsWith_def endsWith_def)
  have digits: "showNat 404 = ''404''"
    by (simp add: showNat.simps)
  show ?thesis
    using metadata_error_result [of "upstreamStatus 404" "''https://github.com/o/n''" None
        "\<lparr>ok = False, status = 404, json = Inr (Obj [(''message'', Str ''Not Found'')])\<rparr>"]
    by (simp add: upstreamStatus_def path digits)
qed


lemma getProp_defined: "\<not> nullish v \<Longrightarrow> getProp v k = Inr (optProp v k)"
  by (cases v) (simp_all add: nullish_def optProp_def)

lemma getProp_Inr_not_nullish: "getProp v k = Inr x \<Longrightarrow> \<not> nullish v"
  by (cases v) (simp_all add: nullish_def)

lemma getProp_Inr_optProp: "getProp v k = Inr x \<Longrightarrow> optProp v k = x"
  by (cases v) (simp_all add: nullish_def optProp_def)

lemma assemble_array:
  assumes "\<not> nullish repoData" and "\<not> nullish (optProp repoData ''owner'')"
  shows "assemble repoData (Arr commits) =
     Inr (Obj
       [(''name'', optProp repoData ''name''),
        (''full_name'', optProp repoData ''full_name''),
        (''description'', optProp repoData ''description''),
        (''url'', optProp repoData ''html_url''),
        (''stars'', optProp repoData ''stargazers_count''),
        (''forks'', optProp repoData ''forks_count''),
        (''last_updated'',
           js_or (commitDate (case commits of [] \<Rightarrow> Undefined | c # rest \<Rightarrow> c))
                 (optProp repoData ''updated_at'')),
        (''last_commit_message'',
           js_or (commitMessage (case commits of [] \<Rightarrow> Undefined | c # rest \<Rightarrow> c)) (Str '''')),
        (''last_commit_url'',
           js_or (optProp (case commits of [] \<Rightarrow> Undefined | c # rest \<Rightarrow> c) ''html_url'') (Str '''')),
        (''owner'', Obj
           [(''login'', optProp (optProp repoData ''owner'') ''login''),
            (''avatar_url'', optProp (optProp repoData ''owner'') ''avatar_url''),
            (''url'', optProp (optProp repoData ''owner'') ''html_url'')])])"
  using assms by (simp add: assemble_def bindE_def getProp_defined)

lemma no_commit [simp]:
  "commitDate Undefined = Undefined" "commitMessage Undefined = Undefined"
  "optProp Undefined k = Undefined"
  by (simp_all add: commitDate_def commitMessage_def optProp_def nullish_def)

text \<open>
  Claim C5, as amended. When both upstream calls succeed, the commit response parses to an
  array and the metadata has an owner: with an empty commit array,
  \<^verbatim>\<open>last_commit_message\<close> and \<^verbatim>\<open>last_commit_url\<close> are empty strings and
  \<^verbatim>\<open>last_updated\<close> is the metadata's \<^verbatim>\<open>updated_at\<close>; with a non-empty array,
  \<^verbatim>\<open>last_updated\<close> is the first commit's committer date when that date is present
  (truthy), and the metadata's \<^verbatim>\<open>updated_at\<close> otherwise.
\<close>

theorem last_updated_sources:
  assumes "fetch (repoRequest (repoPath ref) githubToken) = Inr repoResponse"
    and "ok repoResponse"
    and "json repoResponse = Inr repoData"
    and "bindE (getProp repoData ''default_branch'') toStr = Inr branch"
    and "getProp repoData ''owner'' = Inr owner"
    and "\<not> nullish owner"
    and "getProp repoData ''updated_at'' = Inr updated_at"
    and "fetch (commitsRequest (repoPath ref) branch githubToken) = Inr commitsResponse"
    and "ok commitsResponse"
    and "json commitsResponse = Inr (Arr commits)"
  shows "\<exists>v. getRepoInfo fetch (Str ref) githubToken = Inr v \<and>
    (case commits of
       [] \<Rightarrow>
         getProp v ''last_commit_message'' = Inr (Str '''') \<and>
         getProp v ''last_commit_url'' = Inr (Str '''') \<and>
         getProp v ''last_updated'' = Inr updated_at
     | c # rest \<Rightarrow>
         getProp v ''last_updated'' = Inr (if truthy (commitDate c) then commitDate c else updated_at))"
proof -
  from assms(5) have nn: "\<not> nullish repoData" by (rule getProp_Inr_not_nullish)
  from assms(5) have ow: "optProp repoData ''owner'' = owner" by (rule getProp_Inr_optProp)
  from assms(7) have up: "optProp repoData ''updated_at'' = updated_at" by (rule getProp_Inr_optProp)
  have "snd (tryBlock fetch ref githubToken) = assemble repoData (Arr commits)"
    using assms(1,2,3,4,8,9,10) by (simp add: tryBlock_def Let_def)
  then have run: "getRepoInfo fetch (Str ref) githubToken = assemble repoData (Arr commits)"
    using assemble_array [OF nn, of commits] assms(6) ow by (simp add: getRepoInfo_string)
  show ?thesis
    unfolding run using assemble_array [OF nn, of commits] assms(6) ow up
    by (cases commits) (simp_all add: js_or_def)
qed

text \<open>
  Claim C5 at the reference \<^verbatim>\<open>o/n\<close>, once with no commit and once with a commit dated
  \<^verbatim>\<open>2024-05-05T10:00:00Z\<close>.
\<close>

theorem last_updated_sources_witness:
  "(\<exists>v. getRepoInfo
          (upstreamOf ''https://api.github.com/repos/o/n''
             (Obj [(''default_branch'', Str ''main''), (''updated_at'', Str ''2024-01-01T00:00:00Z''),
                   (''owner'', Obj [(''login'', Str ''o'')])])
             (Arr []))
          (Str ''o/n'') None = Inr v \<and>
        getProp v ''last_commit_message'' = Inr (Str '''') \<and>
        getProp v ''last_commit_url'' = Inr (Str '''') \<and>
        getProp v ''last_updated'' = Inr (Str ''2024-01-01T00:00:00Z''))
   \<and> (\<exists>v. getRepoInfo
          (upstreamOf ''https://api.github.com/repos/o/n''
             (Obj [(''default_branch'', Str ''main''), (''updated_at'', Str ''2024-01-01T00:00:00Z''),
                   (''owner'', Obj [(''login'', Str ''o'')])])
             (Arr [Obj [(''commit'', Obj [(''committer'', Obj [(''date'', Str ''2024-05-05T10:00:00Z'')])])]]))
          (Str ''o/n'') None = Inr v \<and>
        getProp v ''last_updated'' = Inr (Str ''2024-05-05T10:00:00Z''))"
proof -
  let ?meta = "Obj [(''default_branch'', Str ''main''), (''updated_at'', Str ''2024-01-01T00:00:00Z''),
                   (''owner'', Obj [(''login'', Str ''o'')])]"
  let ?c = "Obj [(''commit'', Obj [(''committer'', Obj [(''date'', Str ''2024-05-05T10:00:00Z'')])])]"
  have path: "repoPath ''o/n'' = ''o/n''" by (simp add: eval_path)
  have date: "commitDate ?c = Str ''2024-05-05T10:00:00Z''"
    by (simp add: commitDate_def optProp_def nullish_def)
  show ?thesis
    using last_updated_sources [where fetch = "upstreamOf ''https://api.github.com/repos/o/n'' ?meta (Arr [])"
        and ref = "''o/n''" and githubToken = None
        and repoResponse = "\<lparr>ok = True, status = 200, json = Inr ?meta\<rparr>"
        and repoData = ?meta and branch = "''main''" and owner = "Obj [(''login'', Str ''o'')]"
        and updated_at = "Str ''2024-01-01T00:00:00Z''"
        and commitsResponse = "\<lparr>ok = True, status = 200, json = Inr (Arr [])\<rparr>"
        and commits = "[]"]
      last_updated_sources [where fetch = "upstreamOf ''https://api.github.com/repos/o/n'' ?meta (Arr [?c])"
        and ref = "''o/n''" and githubToken = None
        and repoResponse = "\<lparr>ok = True, status = 200, json = Inr ?meta\<rparr>"
        and repoData = ?meta and branch = "''main''" and owner = "Obj [(''login'', Str ''o'')]"
        and updated_at = "Str ''2024-01-01T00:00:00Z''"
        and commitsResponse = "\<lparr>ok = True, status = 200, json = Inr (Arr [?c])\<rparr>"
        and commits = "[?c]"]
    by (simp add: path date upstreamOf_def eval_request bindE_def nullish_def)
qed

text \<open>
  Claim C5 as stated fails for a non-empty commit array whose first commit has no committer
  date (here its \<^verbatim>\<open>committer\<close> is \<^verbatim>\<open>null\<close>): \<^verbatim>\<open>last_updated\<close> is the
  metadata's \<^verbatim>\<open>updated_at\<close>.
\<close>

theorem last_updated_counterexample:
  "commitDate (Obj [(''sha'', Str ''abc''),
                    (''commit'', Obj [(''message'', Str ''init''), (''committer'', Null)])]) = Undefined
   \<and> getRepoInfo
       (upstreamOf ''https://api.github.com/repos/o/n''
          (Obj [(''name'', Str ''n''), (''default_branch'', Str ''main''),
                (''updated_at'', Str ''2024-01-01T00:00:00Z''),
                (''owner'', Obj [(''login'', Str ''o'')])])
          (Arr [Obj [(''sha'', Str ''abc''),
                     (''commit'', Obj [(''message'', Str ''init''), (''committer'', Null)])]]))
       (Str ''o/n'') None
     = Inr (Obj
        [(''name'', Str ''n''),
         (''full_name'', Undefined),
         (''description'', Undefined),
         (''url'', Undefined),
         (''stars'', Undefined),
         (''forks'', Undefined),
         (''last_updated'', Str ''2024-01-01T00:00:00Z''),
         (''last_commit_message'', Str ''init''),
         (''last_commit_url'', Str ''''),
         (''owner'', Obj [(''login'', Str ''o''), (''avatar_url'', Undefined), (''url'', Undefined)])])"
proof -
  have path: "repoPath ''o/n'' = ''o/n''" by (simp add: eval_path)
  show ?thesis
    by (simp add: getRepoInfo_string tryBlock_def path upstreamOf_def eval_request bindE_def
        assemble_def commitDate_def commitMessage_def optProp_def nullish_def js_or_def)
qed

lemma issued_first:
  "\<exists>rest. issued fetch (Str ref) githubToken = repoRequest (repoPath ref) githubToken # rest"
  by (auto simp: issued_def tryBlock_def Let_def split: sum.splits prod.splits)

text \<open>
  With a credential present, the metadata request, which every invocation for a string
  reference issues first, carries \<^verbatim>\<open>Authorization: Bearer\<close> followed by the
  credential; with or without one it carries the fixed client-agent string.
\<close>

lemma metadata_request_headers:
  "(\<exists>rest. issued fetch (Str ref) githubToken = repoRequest (repoPath ref) githubToken # rest)
   \<and> req_url (repoRequest path githubToken) = ''https://api.github.com/repos/'' @ path
   \<and> map_of (req_headers (repoRequest path githubToken)) ''User-Agent''
       = Some ''YackSuite-Tool-Status-Checker''
   \<and> map_of (req_headers (repoRequest path (Some token))) ''Authorization''
       = Some (''Bearer '' @ token)"
  using issued_first [of fetch ref githubToken] by (simp add: eval_request)

section \<open>The routes\<close>

lemma getRepoInfo_fulfilled:
  "\<exists>fields. getRepoInfo fetch (Str s) githubToken = Inr (Obj fields)"
proof (cases "snd (tryBlock fetch s githubToken)")
  case (Inl e)
  then show ?thesis by (simp add: getRepoInfo_string)
next
  case (Inr v)
  then show ?thesis using tryBlock_shape [OF Inr] by (auto simp: getRepoInfo_string)
qed

lemma cache_control: "CACHE_CONTROL = ''public, max-age=3600''"
  by (simp add: CACHE_CONTROL_def CACHE_TIME_def showNat.simps)

text \<open>
  Claim C6 at the failing input \<^verbatim>\<open>GET /api/repo-info?repo=o/n\<close>, with a token
  configured in the environment. The claim says that a request made without a credential
  carries no \<^verbatim>\<open>Authorization\<close> credential. The single route calls
  \<^verbatim>\<open>getRepoInfo(repoUrl)\<close> without the token that the bulk route passes, and the header
  is the template literal \<^verbatim>\<open>`Bearer ${githubToken}`\<close> whatever the credential: the answer
  is the fetcher's value for an absent credential, and the metadata request of that
  invocation carries \<^verbatim>\<open>Authorization: Bearer undefined\<close>.
\<close>

theorem single_route_bearer_undefined:
  "(\<exists>repoInfo. getRepoInfo fetch (Str ''o/n'') None = Inr repoInfo \<and>
      onRequest fetch
        \<lparr>request = \<lparr>pathname = ''/api/repo-info'', http_method = ''GET'', repo_param = Some ''o/n'',
                     body_json = body\<rparr>,
         env = \<lparr>GITHUB_TOKEN = Some token\<rparr>\<rparr>
      = Respond
          \<lparr>r_status = 200,
           r_headers = [(''Content-Type'', ''application/json''),
                        (''Cache-Control'', ''public, max-age=3600'')],
           r_body = repoInfo\<rparr>)
   \<and> (\<exists>rest. issued fetch (Str ''o/n'') None = repoRequest ''o/n'' None # rest)
   \<and> map_of (req_headers (repoRequest ''o/n'' None)) ''Authorization'' = Some ''Bearer undefined''"
proof (intro conjI)
  obtain fields where "getRepoInfo fetch (Str ''o/n'') None = Inr (Obj fields)"
    using getRepoInfo_fulfilled by blast
  then show "\<exists>repoInfo. getRepoInfo fetch (Str ''o/n'') None = Inr repoInfo \<and>
      onRequest fetch
        \<lparr>request = \<lparr>pathname = ''/api/repo-info'', http_method = ''GET'', repo_param = Some ''o/n'',
                     body_json = body\<rparr>,
         env = \<lparr>GITHUB_TOKEN = Some token\<rparr>\<rparr>
      = Respond
          \<lparr>r_status = 200,
           r_headers = [(''Content-Type'', ''application/json''),
                        (''Cache-Control'', ''public, max-age=3600'')],
           r_body = repoInfo\<rparr>"
    by (simp add: onRequest_def repoInfoTry_def okResponse_def bindE_def cache_control)
next
  have "repoPath ''o/n'' = ''o/n''" by (simp add: eval_path)
  then show "\<exists>rest. issued fetch (Str ''o/n'') None = repoRequest ''o/n'' None # rest"
    using issued_first [of fetch "''o/n''" None] by simp
next
  show "map_of (req_headers (repoRequest ''o/n'' None)) ''Authorization'' = Some ''Bearer undefined''"
    by (simp add: eval_request)
qed

text \<open>
  Claim C7, as amended. On \<^verbatim>\<open>/api/repos-info\<close>, a method other than POST gives 405 with
  \<^verbatim>\<open>Allow: POST\<close>; a POST whose body parses to a value other than \<^verbatim>\<open>null\<close> and
  whose \<^verbatim>\<open>repos\<close> is missing or not an array gives 400. On \<^verbatim>\<open>/api/repo-info\<close>,
  a request without the \<^verbatim>\<open>repo\<close> parameter gives 400. Each of these responses has the
  header \<^verbatim>\<open>Content-Type: application/json\<close> and no \<^verbatim>\<open>Cache-Control\<close>.
\<close>

theorem request_shape_failures:
  "(pathname (request ctx) = ''/api/repos-info'' \<and> http_method (request ctx) \<noteq> ''POST'' \<longrightarrow>
      onRequest fetch ctx = Respond
        \<lparr>r_status = 405,
         r_headers = [(''Content-Type'', ''application/json''), (''Allow'', ''POST'')],
         r_body = Obj [(''error'', Str ''Method not allowed. Use POST.'')]\<rparr>)
   \<and> (pathname (request ctx) = ''/api/repos-info'' \<and> http_method (request ctx) = ''POST''
        \<and> body_json (request ctx) = Inr body \<and> \<not> nullish body
        \<and> \<not> isArray (optProp body ''repos'') \<longrightarrow>
      onRequest fetch ctx = Respond
        \<lparr>r_status = 400,
         r_headers = [(''Content-Type'', ''application/json'')],
         r_body = Obj [(''error'', Str ''Invalid request. Provide an array of repo URLs.'')]\<rparr>)
   \<and> (pathname (request ctx) = ''/api/repo-info'' \<and> repo_param (request ctx) = None \<longrightarrow>
      onRequest fetch ctx = Respond
        \<lparr>r_status = 400,
         r_headers = [(''Content-Type'', ''application/json'')],
         r_body = Obj [(''error'', Str ''Missing repo parameter'')]\<rparr>)"
proof (intro conjI impI)
  assume "pathname (request ctx) = ''/api/repos-info'' \<and> http_method (request ctx) \<noteq> ''POST''"
  then show "onRequest fetch ctx = Respond
        \<lparr>r_status = 405,
         r_headers = [(''Content-Type'', ''application/json''), (''Allow'', ''POST'')],
         r_body = Obj [(''error'', Str ''Method not allowed. Use POST.'')]\<rparr>"
    by (simp add: onRequest_def reposInfoTry_def errorResponse_def)
next
  assume a: "pathname (request ctx) = ''/api/repos-info'' \<and> http_method (request ctx) = ''POST''
        \<and> body_json (request ctx) = Inr body \<and> \<not> nullish body
        \<and> \<not> isArray (optProp body ''repos'')"
  then have "destructureRepos body = Inr (optProp body ''repos'')"
    by (auto simp: destructureRepos_def nullish_def getProp_defined)
  with a show "onRequest fetch ctx = Respond
        \<lparr>r_status = 400,
         r_headers = [(''Content-Type'', ''application/json'')],
         r_body = Obj [(''error'', Str ''Invalid request. Provide an array of repo URLs.'')]\<rparr>"
    by (simp add: onRequest_def reposInfoTry_def errorResponse_def bindE_def)
next
  assume "pathname (request ctx) = ''/api/repo-info'' \<and> repo_param (request ctx) = None"
  then show "onRequest fetch ctx = Respond
        \<lparr>r_status = 400,
         r_headers = [(''Content-Type'', ''application/json'')],
         r_body = Obj [(''error'', Str ''Missing repo parameter'')]\<rparr>"
    by (simp add: onRequest_def repoInfoTry_def errorResponse_def)
qed

text \<open>
  Claim C7 at a GET to the bulk route, at the body \<^verbatim>\<open>{"repos": "not-an-array"}\<close>, and
  at the single route without a parameter.
\<close>

theorem request_shape_failures_witness:
  "onRequest (upstreamStatus 404)
      \<lparr>request = \<lparr>pathname = ''/api/repos-info'', http_method = ''GET'', repo_param = None,
                   body_json = Inl (Error ''Unexpected end of JSON input'')\<rparr>,
       env = \<lparr>GITHUB_TOKEN = Some ''token''\<rparr>\<rparr>
     = Respond
        \<lparr>r_status = 405,
         r_headers = [(''Content-Type'', ''application/json''), (''Allow'', ''POST'')],
         r_body = Obj [(''error'', Str ''Method not allowed. Use POST.'')]\<rparr>
   \<and> onRequest (upstreamStatus 404)
      \<lparr>request = \<lparr>pathname = ''/api/repos-info'', http_method = ''POST'', repo_param = None,
                   body_json = Inr (Obj [(''repos'', Str ''not-an-array'')])\<rparr>,
       env = \<lparr>GITHUB_TOKEN = Some ''token''\<rparr>\<rparr>
     = Respond
        \<lparr>r_status = 400,
         r_headers = [(''Content-Type'', ''application/json'')],
         r_body = Obj [(''error'', Str ''Invalid request. Provide an array of repo URLs.'')]\<rparr>
   \<and> onRequest (upstreamStatus 404)
      \<lparr>request = \<lparr>pathname = ''/api/repo-info'', http_method = ''GET'', repo_param = None,
                   body_json = Inl (Error ''Unexpected end of JSON input'')\<rparr>,
       env = \<lparr>GITHUB_TOKEN = Some ''token''\<rparr>\<rparr>
     = Respond
        \<lparr>r_status = 400,
         r_headers = [(''Content-Type'', ''application/json'')],
         r_body = Obj [(''error'', Str ''Missing repo parameter'')]\<rparr>"
  using
    request_shape_failures [where ctx =
      "\<lparr>request = \<lparr>pathname = ''/api/repos-info'', http_method = ''GET'', repo_param = None,
                   body_json = Inl (Error ''Unexpected end of JSON input'')\<rparr>,
       env = \<lparr>GITHUB_TOKEN = Some ''token''\<rparr>\<rparr>" and fetch = "upstreamStatus 404"]
    request_shape_failures [where ctx =
      "\<lparr>request = \<lparr>pathname = ''/api/repos-info'', http_method = ''POST'', repo_param = None,
                   body_json = Inr (Obj [(''repos'', Str ''not-an-array'')])\<rparr>,
       env = \<lparr>GITHUB_TOKEN = Some ''token''\<rparr>\<rparr>"
      and body = "Obj [(''repos'', Str ''not-an-array'')]" and fetch = "upstreamStatus 404"]
    request_shape_failures [where ctx =
      "\<lparr>request = \<lparr>pathname = ''/api/repo-info'', http_method = ''GET'', repo_param = None,
                   body_json = Inl (Error ''Unexpected end of JSON input'')\<rparr>,
       env = \<lparr>GITHUB_TOKEN = Some ''token''\<rparr>\<rparr>" and fetch = "upstreamStatus 404"]
  by (simp add: nullish_def optProp_def)

text \<open>
  Claim C7 as stated fails for the body \<^verbatim>\<open>null\<close>, which has no \<^verbatim>\<open>repos\<close>:
  the destructuring throws before the check, and the answer is 500.
\<close>

theorem null_body_counterexample:
  "statusOf (onRequest (upstreamStatus 404)
      \<lparr>request = \<lparr>pathname = ''/api/repos-info'', http_method = ''POST'', repo_param = None,
                   body_json = Inr Null\<rparr>,
       env = \<lparr>GITHUB_TOKEN = Some ''token''\<rparr>\<rparr>) = Some 500"
  by (simp add: statusOf_def onRequest_def reposInfoTry_def bindE_def destructureRepos_def
      errorResponse_def)

text \<open>
  Claim C10, as amended. On the single route no request is answered with 500; and when the
  \<^verbatim>\<open>repo\<close> parameter is present and not empty, the answer is the fetcher's value with
  status 200 and the headers \<^verbatim>\<open>Content-Type: application/json\<close> and
  \<^verbatim>\<open>Cache-Control: public, max-age=3600\<close>.
\<close>

theorem single_route_responses:
  assumes "pathname (request ctx) = ''/api/repo-info''"
  shows "statusOf (onRequest fetch ctx) \<noteq> Some 500
    \<and> (repo_param (request ctx) = Some repoUrl \<and> repoUrl \<noteq> [] \<longrightarrow>
         (\<exists>repoInfo. getRepoInfo fetch (Str repoUrl) None = Inr repoInfo \<and>
            onRequest fetch ctx = Respond
              \<lparr>r_status = 200,
               r_headers = [(''Content-Type'', ''application/json''),
                            (''Cache-Control'', ''public, max-age=3600'')],
               r_body = repoInfo\<rparr>))"
proof -
  have cc: "CACHE_CONTROL = ''public, max-age=3600''"
    by (simp add: CACHE_CONTROL_def CACHE_TIME_def showNat.simps)
  show ?thesis
  proof (cases "repo_param (request ctx)")
    case None
    with assms show ?thesis
      by (simp add: statusOf_def onRequest_def repoInfoTry_def errorResponse_def)
  next
    case (Some s)
    obtain fields where "getRepoInfo fetch (Str s) None = Inr (Obj fields)"
      using getRepoInfo_fulfilled by blast
    with assms Some show ?thesis
      by (auto simp: statusOf_def onRequest_def repoInfoTry_def errorResponse_def okResponse_def
          bindE_def cc)
  qed
qed

text \<open>
  Claim C10 at \<^verbatim>\<open>/api/repo-info?repo=o/n\<close>.
\<close>

theorem single_route_responses_witness:
  "statusOf (onRequest (upstreamStatus 404)
      \<lparr>request = \<lparr>pathname = ''/api/repo-info'', http_method = ''GET'', repo_param = Some ''o/n'',
                   body_json = Inl (Error ''Unexpected end of JSON input'')\<rparr>,
       env = \<lparr>GITHUB_TOKEN = Some ''token''\<rparr>\<rparr>) \<noteq> Some 500
   \<and> (\<exists>repoInfo. getRepoInfo (upstreamStatus 404) (Str ''o/n'') None = Inr repoInfo \<and>
        onRequest (upstreamStatus 404)
          \<lparr>request = \<lparr>pathname = ''/api/repo-info'', http_method = ''GET'', repo_param = Some ''o/n'',
                       body_json = Inl (Error ''Unexpected end of JSON input'')\<rparr>,
           env = \<lparr>GITHUB_TOKEN = Some ''token''\<rparr>\<rparr>
        = Respond
            \<lparr>r_status = 200,
             r_headers = [(''Content-Type'', ''application/json''),
                          (''Cache-Control'', ''public, max-age=3600'')],
             r_body = repoInfo\<rparr>)"
  using single_route_responses [of
      "\<lparr>request = \<lparr>pathname = ''/api/repo-info'', http_method = ''GET'', repo_param = Some ''o/n'',
                   body_json = Inl (Error ''Unexpected end of JSON input'')\<rparr>,
       env = \<lparr>GITHUB_TOKEN = Some ''token''\<rparr>\<rparr>" "upstreamStatus 404" "''o/n''"]
  by simp

text \<open>
  Claim C10 as stated fails for a parameter that is present and empty
  (\<^verbatim>\<open>/api/repo-info?repo=\<close>): the guard \<^verbatim>\<open>!repoUrl\<close> answers 400.
\<close>

theorem empty_repo_param_counterexample:
  "statusOf (onRequest (upstreamStatus 404)
      \<lparr>request = \<lparr>pathname = ''/api/repo-info'', http_method = ''GET'', repo_param = Some '''',
                   body_json = Inl (Error ''Unexpected end of JSON input'')\<rparr>,
       env = \<lparr>GITHUB_TOKEN = Some ''token''\<rparr>\<rparr>) = Some 400"
  by (simp add: statusOf_def onRequest_def repoInfoTry_def errorResponse_def)

text \<open>
  Claim C2 at the failing input \<^verbatim>\<open>{"repos": ["__proto__"]}\<close>: the answer has status 200
  and its body is the empty object, with no key for the input string. The fetcher's value
  became the prototype of \<^verbatim>\<open>repoInfoMap\<close> instead of an own property.
\<close>

theorem proto_key_dropped:
  "onRequest fetch
      \<lparr>request = \<lparr>pathname = ''/api/repos-info'', http_method = ''POST'', repo_param = param,
                   body_json = Inr (Obj [(''repos'', Arr [Str ''__proto__''])])\<rparr>,
       env = \<lparr>GITHUB_TOKEN = githubToken\<rparr>\<rparr>
   = Respond
      \<lparr>r_status = 200,
       r_headers = [(''Content-Type'', ''application/json''),
                    (''Cache-Control'', ''public, max-age=3600'')],
       r_body = Obj []\<rparr>"
proof -
  obtain fields where "getRepoInfo fetch (Str ''__proto__'') githubToken = Inr (Obj fields)"
    using getRepoInfo_fulfilled by blast
  then show ?thesis
    by (simp add: onRequest_def reposInfoTry_def bindE_def destructureRepos_def assign_def
        inheritsProtoSetter_def emptyObject_def okResponse_def cache_control)
qed

text \<open>
  For every other list of strings the bulk route does what claim C2 says: status 200, one
  key for each distinct input string, and under each key the fetcher's value for it.
\<close>

lemma getRepoInfo_fulfilled_eq:
  "getRepoInfo fetch (Str s) githubToken = Inr (fulfilled fetch githubToken s)"
  using getRepoInfo_fulfilled [of fetch s githubToken] by (auto simp: fulfilled_def)

lemma promiseAll_strings:
  "promiseAll (map ((\<lambda>repo. getRepoInfo fetch repo githubToken) \<circ> Str) refs)
     = Inr (map (fulfilled fetch githubToken) refs)"
  by (induction refs) (simp_all add: getRepoInfo_fulfilled_eq)

lemma forEachAssign_strings:
  assumes "''__proto__'' \<notin> set refs"
  shows "forEachAssign (zip (map Str refs) (map f refs)) obj
     = Inr (obj\<lparr>own := fold (\<lambda>k. AList.update k (f k)) refs (own obj)\<rparr>)"
  using assms by (induction refs arbitrary: obj) (auto simp: assign_def)

lemma map_of_fold_update:
  "map_of (fold (\<lambda>k. AList.update k (f k)) refs al) k
     = (if k \<in> set refs then Some (f k) else map_of al k)"
  by (induction refs arbitrary: al) (simp_all add: update_conv')

lemma batch_without_proto:
  assumes "pathname (request ctx) = ''/api/repos-info''"
    and "http_method (request ctx) = ''POST''"
    and "body_json (request ctx) = Inr (Obj [(''repos'', Arr (map Str refs))])"
    and "''__proto__'' \<notin> set refs"
  shows "\<exists>entries.
      onRequest fetch ctx = Respond
        \<lparr>r_status = 200,
         r_headers = [(''Content-Type'', ''application/json''),
                      (''Cache-Control'', ''public, max-age=3600'')],
         r_body = Obj entries\<rparr>
      \<and> dom (map_of entries) = set refs
      \<and> (\<forall>k \<in> set refs.
            Inr (the (map_of entries k)) = getRepoInfo fetch (Str k) (GITHUB_TOKEN (env ctx)))"
proof -
  let ?f = "fulfilled fetch (GITHUB_TOKEN (env ctx))"
  let ?entries = "fold (\<lambda>k. AList.update k (?f k)) refs []"
  have "onRequest fetch ctx = Respond
        \<lparr>r_status = 200,
         r_headers = [(''Content-Type'', ''application/json''),
                      (''Cache-Control'', ''public, max-age=3600'')],
         r_body = Obj ?entries\<rparr>"
    using assms
    by (simp add: onRequest_def reposInfoTry_def bindE_def destructureRepos_def
        promiseAll_strings forEachAssign_strings emptyObject_def okResponse_def cache_control)
  moreover have "dom (map_of ?entries) = set refs"
    by (auto simp: dom_def map_of_fold_update)
  moreover have "\<forall>k \<in> set refs.
      Inr (the (map_of ?entries k)) = getRepoInfo fetch (Str k) (GITHUB_TOKEN (env ctx))"
    by (simp add: map_of_fold_update getRepoInfo_fulfilled_eq)
  ultimately show ?thesis by blast
qed

end
